theory Spec2Isabelle
  imports Main
begin

section \<open>Conversation session state of forge.ai\<close>

text \<open>
  The repository holds three editions of the React provider \<^verbatim>\<open>ConversationProvider\<close>:
  \<^item> the in-memory provider of \<^verbatim>\<open>src/unnamed/part_000\<close>, whose \<^verbatim>\<open>addMessage\<close> takes an
    optional target conversation and returns the updated conversation;
  \<^item> the older in-memory provider (second document of
    \<^verbatim>\<open>src/contexts/ConversationContext.tsx\<close>), whose operations return nothing;
  \<^item> the remote provider (first document of \<^verbatim>\<open>src/contexts/ConversationContext.tsx\<close>),
    which calls \<^verbatim>\<open>conversationAPI\<close> for every mutation.

  Each operation is modelled as one atomic transition on the pair of React state cells
  \<^verbatim>\<open>conversations\<close> and \<^verbatim>\<open>currentConversation\<close>. The current conversation is a value
  held in its own cell (a snapshot), not an index into the collection, exactly as in the
  source. What the environment supplies is a parameter of the operation: every reading
  of \<^verbatim>\<open>Date.now()\<close>, the text that \<^verbatim>\<open>Math.random()\<close> renders to, and the outcome of
  every \<^verbatim>\<open>conversationAPI\<close> call (the entity returned, or the error thrown).

  The values an operation's closure captured are those of the state it is applied to: a
  call made through the closure of an earlier render is the operation applied to the
  collection as it stands together with the current conversation that closure holds.

  A string is a list of units; \<^verbatim>\<open>length\<close> and \<^verbatim>\<open>slice\<close> of the source count the same
  units (UTF-16 code units in the source). The fields of \<^verbatim>\<open>Message\<close> carry the prefix
  \<open>msg_\<close> and the \<^verbatim>\<open>id\<close> of a \<^verbatim>\<open>Conversation\<close> is \<open>conv_id\<close>, since \<open>id\<close>, \<open>role\<close> and
  \<open>content\<close> are taken by the identity function and by the parameters of \<^verbatim>\<open>addMessage\<close>.
\<close>

subsection \<open>Data model\<close>

datatype role = User | Assistant

record message =
  msg_id :: string
  msg_role :: role
  msg_content :: string
  msg_timestamp :: nat

record conversation =
  conv_id :: string
  title :: string
  messages :: "message list"
  createdAt :: nat

record store =
  conversations :: "conversation list"
  currentConversation :: "conversation option"

text \<open>A thrown JavaScript \<^verbatim>\<open>Error\<close>, identified by its message.\<close>

datatype error = Error string

text \<open>
  What one call leaves behind: the state cells, the lines printed with
  \<^verbatim>\<open>console.error\<close> (the label only; the error object printed after it is left out),
  and either the value returned or the error thrown to the caller.
\<close>

record 'a outcome =
  store_after :: store
  console :: "string list"
  result :: "error + 'a"

subsection \<open>Identifiers\<close>

text \<open>The decimal text of a number, as a template literal renders an integer.\<close>

fun show_nat :: "nat \<Rightarrow> string" where
  "show_nat n =
     (if n < 10 then [''0123456789'' ! n]
      else show_nat (n div 10) @ [''0123456789'' ! (n mod 10)])"

declare show_nat.simps [simp del]

text \<open>
  The object literal written out three times in the in-memory providers (on mount, in
  \<^verbatim>\<open>createConversation\<close> and in \<^verbatim>\<open>deleteConversation\<close>). \<^verbatim>\<open>Date.now()\<close> is read twice,
  once for the identifier and once for \<^verbatim>\<open>createdAt\<close>.
\<close>

definition freshConversation :: "nat \<Rightarrow> nat \<Rightarrow> conversation" where
  "freshConversation idNow createdNow =
     \<lparr>conv_id = ''conv-'' @ show_nat idNow,
      title = ''New Conversation'',
      messages = [],
      createdAt = createdNow\<rparr>"

subsection \<open>The in-memory provider (\<^verbatim>\<open>src/unnamed/part_000\<close>)\<close>

text \<open>The mount effect: one empty conversation, which is current.\<close>

definition mount :: "nat \<Rightarrow> nat \<Rightarrow> store" where
  "mount idNow createdNow =
     (let initialConversation = freshConversation idNow createdNow
      in \<lparr>conversations = [initialConversation],
          currentConversation = Some initialConversation\<rparr>)"

definition createConversation :: "nat \<Rightarrow> nat \<Rightarrow> store \<Rightarrow> conversation outcome" where
  "createConversation idNow createdNow s =
     (let conversationsWithMessages = filter (\<lambda>c. length (messages c) > 0) (conversations s);
          newConversation = freshConversation idNow createdNow
      in \<lparr>store_after = \<lparr>conversations = newConversation # conversationsWithMessages,
                         currentConversation = Some newConversation\<rparr>,
          console = [],
          result = Inr newConversation\<rparr>)"

definition addMessage ::
  "role \<Rightarrow> string \<Rightarrow> conversation option \<Rightarrow> nat \<Rightarrow> string \<Rightarrow> nat \<Rightarrow> store
     \<Rightarrow> conversation outcome" where
  "addMessage role content targetConversation idNow random tsNow s =
     (case (case targetConversation of Some t \<Rightarrow> Some t | None \<Rightarrow> currentConversation s) of
        None \<Rightarrow>
          \<lparr>store_after = s,
           console = [''No conversation to add message to''],
           result = Inl (Error ''No conversation available'')\<rparr>
      | Some conversationToUpdate \<Rightarrow>
          (let newMessage =
                 \<lparr>msg_id = ''msg-'' @ show_nat idNow @ ''-'' @ random,
                  msg_role = role,
                  msg_content = content,
                  msg_timestamp = tsNow\<rparr>;
               updatedConversation = conversationToUpdate
                 \<lparr>messages := messages conversationToUpdate @ [newMessage],
                  title :=
                    (if length (messages conversationToUpdate) = 0 \<and> role = User
                     then take 50 content @ (if length content > 50 then ''...'' else '''')
                     else title conversationToUpdate)\<rparr>;
               s1 = s\<lparr>conversations :=
                        map (\<lambda>c. if conv_id c = conv_id conversationToUpdate
                                  then updatedConversation else c)
                            (conversations s)\<rparr>;
               s2 = (if targetConversation = None
                        \<or> Some (conv_id conversationToUpdate)
                            = map_option conv_id (currentConversation s)
                     then s1\<lparr>currentConversation := Some updatedConversation\<rparr>
                     else s1)
           in \<lparr>store_after = s2, console = [], result = Inr updatedConversation\<rparr>))"

definition switchConversation :: "string \<Rightarrow> store \<Rightarrow> unit outcome" where
  "switchConversation conversationId s =
     (case find (\<lambda>c. conv_id c = conversationId) (conversations s) of
        Some conversation \<Rightarrow>
          \<lparr>store_after = s\<lparr>currentConversation := Some conversation\<rparr>,
           console = [], result = Inr ()\<rparr>
      | None \<Rightarrow> \<lparr>store_after = s, console = [], result = Inr ()\<rparr>)"

definition deleteConversation :: "string \<Rightarrow> nat \<Rightarrow> nat \<Rightarrow> store \<Rightarrow> unit outcome" where
  "deleteConversation conversationId idNow createdNow s =
     (let updatedConversations = filter (\<lambda>c. conv_id c \<noteq> conversationId) (conversations s);
          s1 = s\<lparr>conversations := updatedConversations\<rparr>
      in if map_option conv_id (currentConversation s) = Some conversationId
         then (let conversationsWithMessages =
                     filter (\<lambda>c. length (messages c) > 0) updatedConversations
               in if length conversationsWithMessages > 0
                  then \<lparr>store_after =
                          s1\<lparr>currentConversation := Some (conversationsWithMessages ! 0)\<rparr>,
                        console = [], result = Inr ()\<rparr>
                  else (let newConversation = freshConversation idNow createdNow
                        in \<lparr>store_after = \<lparr>conversations = [newConversation],
                                           currentConversation = Some newConversation\<rparr>,
                            console = [], result = Inr ()\<rparr>))
         else \<lparr>store_after = s1, console = [], result = Inr ()\<rparr>)"

subsection \<open>The older in-memory provider (\<^verbatim>\<open>src/contexts/ConversationContext.tsx\<close>, second document)\<close>

text \<open>
  Its mount effect, \<^verbatim>\<open>switchConversation\<close> and \<^verbatim>\<open>deleteConversation\<close> are the ones above,
  word for word. \<^verbatim>\<open>createConversation\<close> differs only in returning nothing, and
  \<^verbatim>\<open>addMessage\<close> has no target parameter, returns nothing, and returns early instead of
  throwing when there is no current conversation.
\<close>

definition createConversation_legacy :: "nat \<Rightarrow> nat \<Rightarrow> store \<Rightarrow> unit outcome" where
  "createConversation_legacy idNow createdNow s =
     (let conversationsWithMessages = filter (\<lambda>c. length (messages c) > 0) (conversations s);
          newConversation = freshConversation idNow createdNow
      in \<lparr>store_after = \<lparr>conversations = newConversation # conversationsWithMessages,
                         currentConversation = Some newConversation\<rparr>,
          console = [],
          result = Inr ()\<rparr>)"

definition addMessage_legacy ::
  "role \<Rightarrow> string \<Rightarrow> nat \<Rightarrow> string \<Rightarrow> nat \<Rightarrow> store \<Rightarrow> unit outcome" where
  "addMessage_legacy role content idNow random tsNow s =
     (case currentConversation s of
        None \<Rightarrow>
          \<lparr>store_after = s,
           console = [''No current conversation to add message to''],
           result = Inr ()\<rparr>
      | Some cur \<Rightarrow>
          (let newMessage =
                 \<lparr>msg_id = ''msg-'' @ show_nat idNow @ ''-'' @ random,
                  msg_role = role,
                  msg_content = content,
                  msg_timestamp = tsNow\<rparr>;
               updatedConversation = cur
                 \<lparr>messages := messages cur @ [newMessage],
                  title :=
                    (if length (messages cur) = 0 \<and> role = User
                     then take 50 content @ (if length content > 50 then ''...'' else '''')
                     else title cur)\<rparr>
           in \<lparr>store_after =
                 \<lparr>conversations =
                    map (\<lambda>c. if conv_id c = conv_id cur then updatedConversation else c)
                        (conversations s),
                  currentConversation = Some updatedConversation\<rparr>,
               console = [], result = Inr ()\<rparr>))"

subsection \<open>The remote provider (\<^verbatim>\<open>src/contexts/ConversationContext.tsx\<close>, first document)\<close>

text \<open>
  \<^verbatim>\<open>conversationAPI\<close> is a remote service. The outcome of each of its calls is a
  parameter: \<open>Inr\<close> the entity it returned, \<open>Inl\<close> the error it threw. The parameter is
  looked at only where the source makes the call.
\<close>

definition createNewConversation :: "error + conversation \<Rightarrow> store \<Rightarrow> unit outcome" where
  "createNewConversation created s =
     (case created of
        Inr newConversation \<Rightarrow>
          \<lparr>store_after = \<lparr>conversations = newConversation # conversations s,
                           currentConversation = Some newConversation\<rparr>,
           console = [], result = Inr ()\<rparr>
      | Inl e \<Rightarrow>
          \<lparr>store_after = s, console = [''Failed to create conversation:''],
           result = Inr ()\<rparr>)"

definition addMessage_remote ::
  "role \<Rightarrow> string \<Rightarrow> error + message \<Rightarrow> store \<Rightarrow> unit outcome" where
  "addMessage_remote role content appended s =
     (case currentConversation s of
        None \<Rightarrow> \<lparr>store_after = s, console = [], result = Inr ()\<rparr>
      | Some cur \<Rightarrow>
          (case appended of
             Inl e \<Rightarrow>
               \<lparr>store_after = s, console = [''Failed to add message:''], result = Inl e\<rparr>
           | Inr newMessage \<Rightarrow>
               (let updatedTitle =
                      (if length (messages cur) = 0 \<and> role = User
                       then take 50 content @ (if length content > 50 then ''...'' else '''')
                       else title cur);
                    updatedConversation =
                      cur\<lparr>messages := messages cur @ [newMessage], title := updatedTitle\<rparr>
                in \<lparr>store_after =
                      \<lparr>conversations =
                         map (\<lambda>conv. if conv_id conv = conv_id updatedConversation
                                     then updatedConversation else conv)
                             (conversations s),
                       currentConversation = Some updatedConversation\<rparr>,
                    console = [], result = Inr ()\<rparr>)))"

definition deleteConversation_remote ::
  "string \<Rightarrow> error + unit \<Rightarrow> error + conversation \<Rightarrow> store \<Rightarrow> unit outcome" where
  "deleteConversation_remote conversationId removed created s =
     (case removed of
        Inl e \<Rightarrow>
          \<lparr>store_after = s, console = [''Failed to delete conversation:''],
           result = Inr ()\<rparr>
      | Inr _ \<Rightarrow>
          (let s1 = s\<lparr>conversations :=
                        filter (\<lambda>c. conv_id c \<noteq> conversationId) (conversations s)\<rparr>
           in if map_option conv_id (currentConversation s) = Some conversationId
              then (let remaining =
                          filter (\<lambda>c. conv_id c \<noteq> conversationId) (conversations s)
                    in if length remaining > 0
                       then \<lparr>store_after = s1\<lparr>currentConversation := Some (remaining ! 0)\<rparr>,
                             console = [], result = Inr ()\<rparr>
                       else createNewConversation created s1)
              else \<lparr>store_after = s1, console = [], result = Inr ()\<rparr>))"

section \<open>Title derivation\<close>

text \<open>
  Stated from the specification: the title of a first user message is its content,
  truncated to 50 units with a trailing ellipsis marker if it was longer.
\<close>

definition titleOf :: "string \<Rightarrow> string" where
  "titleOf content = (if length content \<le> 50 then content else take 50 content @ ''...'')"

section \<open>Runs of calls\<close>






section \<open>Example states\<close>

text \<open>
  A collection in the order the providers keep it, newest first: the current, empty
  conversation, an abandoned empty one, and two conversations that have a message.
\<close>

definition draft :: conversation where
  "draft = \<lparr>conv_id = ''conv-1900'', title = ''New Conversation'', messages = [],
            createdAt = 1900\<rparr>"

definition abandoned :: conversation where
  "abandoned = \<lparr>conv_id = ''conv-1700'', title = ''New Conversation'', messages = [],
                createdAt = 1700\<rparr>"

definition churnTalk :: conversation where
  "churnTalk =
     \<lparr>conv_id = ''conv-1500'', title = ''How do we cut churn?'',
      messages = [\<lparr>msg_id = ''msg-1501-0.5'', msg_role = User,
                   msg_content = ''How do we cut churn?'', msg_timestamp = 1501\<rparr>],
      createdAt = 1500\<rparr>"

definition pricingTalk :: conversation where
  "pricingTalk =
     \<lparr>conv_id = ''conv-1200'', title = ''Pricing'',
      messages = [\<lparr>msg_id = ''msg-1201-0.25'', msg_role = User,
                   msg_content = ''Pricing'', msg_timestamp = 1201\<rparr>],
      createdAt = 1200\<rparr>"

definition busy :: store where
  "busy = \<lparr>conversations = [draft, abandoned, churnTalk, pricingTalk],
           currentConversation = Some draft\<rparr>"

definition unseeded :: store where
  "unseeded = \<lparr>conversations = [], currentConversation = None\<rparr>"

text \<open>A conversation and a message as the remote service might return them.\<close>

definition served :: conversation where
  "served = \<lparr>conv_id = ''42'', title = ''New Conversation'', messages = [],
             createdAt = 2000\<rparr>"



definition stored :: message where
  "stored = \<lparr>msg_id = ''7'', msg_role = User,
             msg_content = ''Describe every bottleneck in our onboarding funnel in detail'',
             msg_timestamp = 1001\<rparr>"

section \<open>Auxiliary facts\<close>

lemma show_nat_1000: "show_nat 1000 = ''1000''"
  by (simp add: show_nat.simps)

lemma mount_1000:
  "mount 1000 1000 =
     \<lparr>conversations = [freshConversation 1000 1000],
      currentConversation = Some (freshConversation 1000 1000)\<rparr>"
  by (simp add: mount_def Let_def)

lemma first_of_filter:
  assumes "length (filter P xs) > 0"
  shows "\<exists>pre post. xs = pre @ (filter P xs ! 0) # post \<and> (\<forall>x \<in> set pre. \<not> P x)
           \<and> P (filter P xs ! 0)"
proof -
  from assms obtain y ys where f: "filter P xs = y # ys"
    by (cases "filter P xs") auto
  then obtain us vs where "xs = us @ y # vs" "\<forall>u \<in> set us. \<not> P u" "P y"
    by (auto simp add: filter_eq_Cons_iff)
  with f show ?thesis by auto
qed

lemma newest_first:
  assumes "sorted_wrt (\<lambda>a b. createdAt b \<le> createdAt a) (pre @ u # post)"
    and "c \<in> set (pre @ u # post)" and "c \<notin> set pre"
  shows "createdAt c \<le> createdAt u"
  using assms by (auto simp add: sorted_wrt_append)

lemma replace_by_id_frame:
  assumes "conv_id u = k"
  shows "length (map (\<lambda>c. if conv_id c = k then u else c) cs) = length cs
       \<and> map conv_id (map (\<lambda>c. if conv_id c = k then u else c) cs) = map conv_id cs
       \<and> (\<forall>i < length cs. map (\<lambda>c. if conv_id c = k then u else c) cs ! i
              = (if conv_id (cs ! i) = k then u else cs ! i))"
  using assms by (induction cs) (auto simp add: nth_Cons split: nat.splits)

section \<open>What \<^verbatim>\<open>addMessage\<close> does once its target is resolved\<close>

lemma addMessage_resolved:
  assumes "targetConversation = Some t
             \<or> (targetConversation = None \<and> currentConversation s = Some t)"
  shows "addMessage role content targetConversation idNow random tsNow s =
     (let u = t\<lparr>messages := messages t @
                    [\<lparr>msg_id = ''msg-'' @ show_nat idNow @ ''-'' @ random,
                      msg_role = role, msg_content = content, msg_timestamp = tsNow\<rparr>],
                title := (if messages t = [] \<and> role = User then titleOf content else title t)\<rparr>
      in \<lparr>store_after =
            \<lparr>conversations = map (\<lambda>c. if conv_id c = conv_id t then u else c) (conversations s),
             currentConversation =
               (if targetConversation = None
                   \<or> Some (conv_id t) = map_option conv_id (currentConversation s)
                then Some u else currentConversation s)\<rparr>,
          console = [], result = Inr u\<rparr>)"
  using assms
  by (auto simp add: addMessage_def Let_def titleOf_def)



section \<open>Claims\<close>



text \<open>
  C2 (as amended). In both in-memory providers, after \<^verbatim>\<open>createConversation\<close> the
  collection is the new empty conversation, which is current, followed by exactly the
  conversations of the old collection that have at least one message, in their old
  order: every empty conversation of the old collection is gone and nothing else is.
  The remote provider prunes nothing: after a successful \<^verbatim>\<open>createNewConversation\<close> the
  collection is the conversation the service returned, which is current, followed by the
  whole old collection.
\<close>

theorem createConversation_prunes_in_memory_only:
  "store_after (createConversation idNow createdNow s)
     = \<lparr>conversations = freshConversation idNow createdNow
                          # filter (\<lambda>c. messages c \<noteq> []) (conversations s),
        currentConversation = Some (freshConversation idNow createdNow)\<rparr>
   \<and> store_after (createConversation_legacy idNow createdNow s)
     = \<lparr>conversations = freshConversation idNow createdNow
                          # filter (\<lambda>c. messages c \<noteq> []) (conversations s),
        currentConversation = Some (freshConversation idNow createdNow)\<rparr>
   \<and> messages (freshConversation idNow createdNow) = []
   \<and> (\<forall>c \<in> set (filter (\<lambda>c. messages c \<noteq> []) (conversations s)). messages c \<noteq> [])
   \<and> (\<forall>c \<in> set (conversations s).
         messages c \<noteq> [] \<longrightarrow> c \<in> set (filter (\<lambda>c. messages c \<noteq> []) (conversations s)))
   \<and> store_after (createNewConversation (Inr n) s)
        = \<lparr>conversations = n # conversations s, currentConversation = Some n\<rparr>"
proof (intro conjI)
  show "store_after (createConversation idNow createdNow s)
     = \<lparr>conversations = freshConversation idNow createdNow
                          # filter (\<lambda>c. messages c \<noteq> []) (conversations s),
        currentConversation = Some (freshConversation idNow createdNow)\<rparr>"
    by (simp add: createConversation_def Let_def)
  show "store_after (createConversation_legacy idNow createdNow s)
     = \<lparr>conversations = freshConversation idNow createdNow
                          # filter (\<lambda>c. messages c \<noteq> []) (conversations s),
        currentConversation = Some (freshConversation idNow createdNow)\<rparr>"
    by (simp add: createConversation_legacy_def Let_def)
  show "messages (freshConversation idNow createdNow) = []"
    by (simp add: freshConversation_def)
  show "\<forall>c \<in> set (filter (\<lambda>c. messages c \<noteq> []) (conversations s)). messages c \<noteq> []"
    by simp
  show "\<forall>c \<in> set (conversations s).
         messages c \<noteq> [] \<longrightarrow> c \<in> set (filter (\<lambda>c. messages c \<noteq> []) (conversations s))"
    by simp
  show "store_after (createNewConversation (Inr n) s)
        = \<lparr>conversations = n # conversations s, currentConversation = Some n\<rparr>"
    by (simp add: createNewConversation_def)
qed

theorem createConversation_prunes_in_memory_only_witness:
  "store_after (createConversation 2000 2000 busy)
     = \<lparr>conversations = [freshConversation 2000 2000, churnTalk, pricingTalk],
        currentConversation = Some (freshConversation 2000 2000)\<rparr>
   \<and> churnTalk \<in> set (conversations busy) \<and> messages churnTalk \<noteq> []
   \<and> abandoned \<in> set (conversations busy) \<and> messages abandoned = []
   \<and> conversations (store_after (createNewConversation (Inr served) busy))
     = [served, draft, abandoned, churnTalk, pricingTalk]"
proof -
  have f: "filter (\<lambda>c. messages c \<noteq> []) (conversations busy) = [churnTalk, pricingTalk]"
    by (simp add: busy_def draft_def abandoned_def churnTalk_def pricingTalk_def)
  have cs: "conversations busy = [draft, abandoned, churnTalk, pricingTalk]"
    by (simp add: busy_def)
  have m: "churnTalk \<in> set (conversations busy)" "messages churnTalk \<noteq> []"
    "abandoned \<in> set (conversations busy)" "messages abandoned = []"
    by (simp_all add: busy_def abandoned_def churnTalk_def)
  note all = createConversation_prunes_in_memory_only [of 2000 2000 busy served]
  from all [THEN conjunct1]
  have a: "store_after (createConversation 2000 2000 busy)
     = \<lparr>conversations = [freshConversation 2000 2000, churnTalk, pricingTalk],
        currentConversation = Some (freshConversation 2000 2000)\<rparr>"
    by (simp only: f)
  from all [THEN conjunct2, THEN conjunct2, THEN conjunct2, THEN conjunct2, THEN conjunct2]
  have b: "conversations (store_after (createNewConversation (Inr served) busy))
     = [served, draft, abandoned, churnTalk, pricingTalk]"
    by (simp add: cs)
  show ?thesis
    using a b m by (intro conjI)
qed

text \<open>
  The claim fails in the remote provider: the abandoned empty conversation, which is not
  the new current one, is still in the collection after \<^verbatim>\<open>createNewConversation\<close>.
\<close>

theorem createNewConversation_keeps_empty_counterexample:
  "abandoned \<in> set (conversations (store_after (createNewConversation (Inr served) busy)))
   \<and> messages abandoned = []
   \<and> currentConversation (store_after (createNewConversation (Inr served) busy))
       \<noteq> Some abandoned"
  by (simp add: createNewConversation_def busy_def abandoned_def served_def)

text \<open>
  C3 (as amended). Let the identifier deleted be that of the current conversation, and
  let the remaining conversations be those with another identifier. In the in-memory
  providers, if some remaining conversation has a message, the new current one is the
  first remaining conversation in collection order that has a message, it is the most
  recently created of them whenever the collection is in newest-first order, and the
  collection is the remaining conversations; if no remaining conversation has a message,
  the collection becomes one fresh empty conversation, which is current. In the remote
  provider, once the service has deleted the conversation, the new current one is the
  first remaining conversation in collection order whether or not it has messages; only
  when nothing remains is a new conversation asked of the service, and when that
  succeeds it is the whole collection and current.
\<close>

theorem deleteConversation_current_replacement:
  assumes "currentConversation s = Some cur" and "conv_id cur = conversationId"
    and "remaining = filter (\<lambda>c. conv_id c \<noteq> conversationId) (conversations s)"
  shows "((\<exists>c \<in> set remaining. messages c \<noteq> []) \<longrightarrow>
            (\<exists>pre u post. remaining = pre @ u # post
               \<and> (\<forall>c \<in> set pre. messages c = []) \<and> messages u \<noteq> []
               \<and> store_after (deleteConversation conversationId idNow createdNow s)
                   = \<lparr>conversations = remaining, currentConversation = Some u\<rparr>
               \<and> (sorted_wrt (\<lambda>a b. createdAt b \<le> createdAt a) (conversations s) \<longrightarrow>
                    (\<forall>c \<in> set remaining. messages c \<noteq> [] \<longrightarrow> createdAt c \<le> createdAt u))))
       \<and> ((\<forall>c \<in> set remaining. messages c = []) \<longrightarrow>
            store_after (deleteConversation conversationId idNow createdNow s)
              = \<lparr>conversations = [freshConversation idNow createdNow],
                 currentConversation = Some (freshConversation idNow createdNow)\<rparr>)
       \<and> (remaining \<noteq> [] \<longrightarrow>
            (\<exists>u rest. remaining = u # rest
               \<and> store_after (deleteConversation_remote conversationId (Inr ()) created s)
                   = \<lparr>conversations = remaining, currentConversation = Some u\<rparr>))
       \<and> (remaining = [] \<longrightarrow>
            store_after (deleteConversation_remote conversationId (Inr ()) (Inr n) s)
              = \<lparr>conversations = [n], currentConversation = Some n\<rparr>)"
proof (intro conjI impI)
  assume ex: "\<exists>c \<in> set remaining. messages c \<noteq> []"
  let ?P = "\<lambda>c. length (messages c) > 0"
  let ?w = "filter ?P remaining"
  from ex have len: "length ?w > 0"
    by (auto simp add: length_greater_0_conv filter_empty_conv simp del: length_greater_0_conv)
  from first_of_filter [OF len] obtain pre post where
    split: "remaining = pre @ (?w ! 0) # post" "\<forall>x \<in> set pre. \<not> ?P x" "?P (?w ! 0)"
    by blast
  have st: "store_after (deleteConversation conversationId idNow createdNow s)
              = \<lparr>conversations = remaining, currentConversation = Some (?w ! 0)\<rparr>"
    using assms len by (simp add: deleteConversation_def Let_def)
  have newest: "sorted_wrt (\<lambda>a b. createdAt b \<le> createdAt a) (conversations s) \<longrightarrow>
                  (\<forall>c \<in> set remaining. messages c \<noteq> [] \<longrightarrow> createdAt c \<le> createdAt (?w ! 0))"
  proof (intro impI ballI)
    fix c
    assume srt: "sorted_wrt (\<lambda>a b. createdAt b \<le> createdAt a) (conversations s)"
      and c: "c \<in> set remaining" "messages c \<noteq> []"
    from srt have "sorted_wrt (\<lambda>a b. createdAt b \<le> createdAt a) remaining"
      by (simp add: assms(3) sorted_wrt_filter)
    then have s2: "sorted_wrt (\<lambda>a b. createdAt b \<le> createdAt a) (pre @ (?w ! 0) # post)"
      using split(1) by simp
    from c split(2) have "c \<notin> set pre" by auto
    moreover from c split(1) have "c \<in> set (pre @ (?w ! 0) # post)" by simp
    ultimately show "createdAt c \<le> createdAt (?w ! 0)"
      using newest_first [OF s2] by blast
  qed
  from split st newest
  show "\<exists>pre u post. remaining = pre @ u # post
               \<and> (\<forall>c \<in> set pre. messages c = []) \<and> messages u \<noteq> []
               \<and> store_after (deleteConversation conversationId idNow createdNow s)
                   = \<lparr>conversations = remaining, currentConversation = Some u\<rparr>
               \<and> (sorted_wrt (\<lambda>a b. createdAt b \<le> createdAt a) (conversations s) \<longrightarrow>
                    (\<forall>c \<in> set remaining. messages c \<noteq> [] \<longrightarrow> createdAt c \<le> createdAt u))"
    by (intro exI [of _ pre] exI [of _ "?w ! 0"] exI [of _ post]) simp
next
  assume none: "\<forall>c \<in> set remaining. messages c = []"
  then have "filter (\<lambda>c. length (messages c) > 0) remaining = []"
    by (simp add: filter_empty_conv)
  with assms show "store_after (deleteConversation conversationId idNow createdNow s)
              = \<lparr>conversations = [freshConversation idNow createdNow],
                 currentConversation = Some (freshConversation idNow createdNow)\<rparr>"
    by (simp add: deleteConversation_def Let_def)
next
  assume ne: "remaining \<noteq> []"
  then obtain u rest where r: "remaining = u # rest" by (cases remaining) auto
  with assms(3) have f: "filter (\<lambda>c. conv_id c \<noteq> conversationId) (conversations s) = u # rest"
    by simp
  have "store_after (deleteConversation_remote conversationId (Inr ()) created s)
          = \<lparr>conversations = u # rest, currentConversation = Some u\<rparr>"
    using assms(1,2) by (simp add: deleteConversation_remote_def Let_def f)
  with r show "\<exists>u rest. remaining = u # rest
               \<and> store_after (deleteConversation_remote conversationId (Inr ()) created s)
                   = \<lparr>conversations = remaining, currentConversation = Some u\<rparr>"
    by simp
next
  assume "remaining = []"
  with assms show "store_after (deleteConversation_remote conversationId (Inr ()) (Inr n) s)
              = \<lparr>conversations = [n], currentConversation = Some n\<rparr>"
    by (simp add: deleteConversation_remote_def createNewConversation_def Let_def)
qed

theorem deleteConversation_current_replacement_witness:
  "currentConversation busy = Some draft \<and> conv_id draft = ''conv-1900''
   \<and> filter (\<lambda>c. conv_id c \<noteq> ''conv-1900'') (conversations busy)
       = [abandoned, churnTalk, pricingTalk]
   \<and> sorted_wrt (\<lambda>a b. createdAt b \<le> createdAt a) (conversations busy)
   \<and> store_after (deleteConversation ''conv-1900'' 2000 2000 busy)
       = \<lparr>conversations = [abandoned, churnTalk, pricingTalk],
          currentConversation = Some churnTalk\<rparr>
   \<and> createdAt pricingTalk \<le> createdAt churnTalk
   \<and> store_after (deleteConversation_remote ''conv-1900'' (Inr ()) (Inr served) busy)
       = \<lparr>conversations = [abandoned, churnTalk, pricingTalk],
          currentConversation = Some abandoned\<rparr>
   \<and> store_after (deleteConversation ''conv-1000'' 2000 2000 (mount 1000 1000))
       = \<lparr>conversations = [freshConversation 2000 2000],
          currentConversation = Some (freshConversation 2000 2000)\<rparr>
   \<and> store_after (deleteConversation_remote ''conv-1000'' (Inr ()) (Inr served)
         (mount 1000 1000))
       = \<lparr>conversations = [served], currentConversation = Some served\<rparr>"
proof -
  have b1: "currentConversation busy = Some draft" and b2: "conv_id draft = ''conv-1900''"
    and b3: "[abandoned, churnTalk, pricingTalk]
               = filter (\<lambda>c. conv_id c \<noteq> ''conv-1900'') (conversations busy)"
    and b4: "sorted_wrt (\<lambda>a b. createdAt b \<le> createdAt a) (conversations busy)"
    by (simp_all add: busy_def draft_def abandoned_def churnTalk_def pricingTalk_def)
  have m1: "currentConversation (mount 1000 1000) = Some (freshConversation 1000 1000)"
    and m2: "conv_id (freshConversation 1000 1000) = ''conv-1000''"
    and m3: "[] = filter (\<lambda>c. conv_id c \<noteq> ''conv-1000'') (conversations (mount 1000 1000))"
    by (simp_all add: mount_1000 freshConversation_def show_nat_1000)
  have e: "messages abandoned = []" "messages churnTalk \<noteq> []" "messages pricingTalk \<noteq> []"
    "abandoned \<noteq> churnTalk"
    by (simp_all add: abandoned_def churnTalk_def pricingTalk_def)
  from deleteConversation_current_replacement [OF b1 b2 b3, of 2000 2000 "Inr served" served]
  have busy_done:
    "store_after (deleteConversation ''conv-1900'' 2000 2000 busy)
       = \<lparr>conversations = [abandoned, churnTalk, pricingTalk],
          currentConversation = Some churnTalk\<rparr>
     \<and> createdAt pricingTalk \<le> createdAt churnTalk
     \<and> store_after (deleteConversation_remote ''conv-1900'' (Inr ()) (Inr served) busy)
       = \<lparr>conversations = [abandoned, churnTalk, pricingTalk],
          currentConversation = Some abandoned\<rparr>"
    using b4 e by (auto simp add: Cons_eq_append_conv)
  from deleteConversation_current_replacement [OF m1 m2 m3, of 2000 2000 "Inr served" served]
  have mount_done:
    "store_after (deleteConversation ''conv-1000'' 2000 2000 (mount 1000 1000))
       = \<lparr>conversations = [freshConversation 2000 2000],
          currentConversation = Some (freshConversation 2000 2000)\<rparr>
     \<and> store_after (deleteConversation_remote ''conv-1000'' (Inr ()) (Inr served)
         (mount 1000 1000))
       = \<lparr>conversations = [served], currentConversation = Some served\<rparr>"
    by simp
  from b1 b2 b3 b4 busy_done mount_done show ?thesis by simp
qed

text \<open>
  The claim fails in the remote provider: deleting the current conversation makes the
  abandoned empty conversation current although a remaining conversation has messages.
\<close>

theorem deleteConversation_remote_picks_empty_counterexample:
  "currentConversation busy = Some draft
   \<and> currentConversation
        (store_after (deleteConversation_remote (conv_id draft) (Inr ()) (Inr served) busy))
       = Some abandoned
   \<and> messages abandoned = []
   \<and> churnTalk \<in> set (conversations
        (store_after (deleteConversation_remote (conv_id draft) (Inr ()) (Inr served) busy)))
   \<and> messages churnTalk \<noteq> []"
  by (simp add: deleteConversation_remote_def Let_def busy_def draft_def abandoned_def
        churnTalk_def pricingTalk_def)

text \<open>
  C4. In the remote provider, an \<^verbatim>\<open>addMessage\<close> call whose append fails leaves both state
  cells as they were, so the messages of the targeted conversation are untouched, and
  the error of the service is thrown on to the caller. In the in-memory providers a call
  with a target to resolve (a target handed in, or a current conversation) returns
  normally.
\<close>

theorem append_failure_leaves_state:
  "(currentConversation s = Some c \<longrightarrow>
      addMessage_remote role content (Inl e) s
        = \<lparr>store_after = s, console = [''Failed to add message:''], result = Inl e\<rparr>)
   \<and> (targetConversation \<noteq> None \<or> currentConversation s \<noteq> None \<longrightarrow>
        (\<exists>u. result (addMessage role content targetConversation idNow random tsNow s) = Inr u))
   \<and> result (addMessage_legacy role content idNow random tsNow s) = Inr ()"
  by (auto simp add: addMessage_remote_def addMessage_def addMessage_legacy_def Let_def
        split: option.splits)

theorem append_failure_leaves_state_witness:
  "currentConversation busy = Some draft
   \<and> addMessage_remote User ''How do we cut churn?'' (Inl (Error ''Network Error'')) busy
        = \<lparr>store_after = busy, console = [''Failed to add message:''],
           result = Inl (Error ''Network Error'')\<rparr>
   \<and> (\<exists>u. result (addMessage User ''How do we cut churn?'' None 2000 ''0.5'' 2000 busy)
              = Inr u)
   \<and> (\<exists>u. result (addMessage User ''How do we cut churn?'' (Some churnTalk) 2000 ''0.5''
                      2000 unseeded) = Inr u)"
proof -
  have h: "currentConversation busy = Some draft"
    by (simp add: busy_def)
  from append_failure_leaves_state
         [of busy draft User "''How do we cut churn?''" "Error ''Network Error''"
             None 2000 "''0.5''" 2000]
       append_failure_leaves_state
         [of unseeded draft User "''How do we cut churn?''" "Error ''Network Error''"
             "Some churnTalk" 2000 "''0.5''" 2000]
       h
  show ?thesis by simp
qed

subsection \<open>Once a conversation has a message, its title stays\<close>













text \<open>
  C6 (as amended). For an identifier that no conversation of the collection carries,
  \<^verbatim>\<open>switchConversation\<close> leaves both state cells as they were, prints nothing and
  returns normally: no error of any kind reaches the caller.
\<close>

theorem switchConversation_absent:
  assumes "conversationId \<notin> conv_id ` set (conversations s)"
  shows "switchConversation conversationId s
           = \<lparr>store_after = s, console = [], result = Inr ()\<rparr>"
proof -
  have "find (\<lambda>c. conv_id c = conversationId) (conversations s) = None"
    using assms by (auto simp add: find_None_iff)
  then show ?thesis by (simp add: switchConversation_def)
qed

theorem switchConversation_absent_witness:
  "''conv-7'' \<notin> conv_id ` set (conversations busy)
   \<and> switchConversation ''conv-7'' busy
       = \<lparr>store_after = busy, console = [], result = Inr ()\<rparr>"
proof -
  have h: "''conv-7'' \<notin> conv_id ` set (conversations busy)"
    by (simp add: busy_def draft_def abandoned_def churnTalk_def pricingTalk_def)
  from switchConversation_absent [OF h] h show ?thesis by simp
qed

text \<open>
  The claim fails: for an absent identifier the call returns normally, so the caller is
  told of no error.
\<close>

theorem switchConversation_absent_counterexample:
  "''conv-7'' \<notin> conv_id ` set (conversations busy)
   \<and> result (switchConversation ''conv-7'' busy) = Inr ()"
  by (simp add: switchConversation_def busy_def draft_def abandoned_def churnTalk_def
        pricingTalk_def)

text \<open>
  C7 (as amended). When there is no current conversation and no target is handed in,
  every provider leaves both state cells as they were. The provider of
  \<^verbatim>\<open>src/unnamed/part_000\<close> prints a line and throws \<^verbatim>\<open>Error('No conversation available')\<close>
  to the caller. The older in-memory provider prints a line and returns normally, and
  the remote provider returns normally without printing and without calling the
  service: in these two the message is dropped and the caller is told of no error.
\<close>

theorem addMessage_without_target:
  assumes "currentConversation s = None"
  shows "addMessage role content None idNow random tsNow s
           = \<lparr>store_after = s, console = [''No conversation to add message to''],
              result = Inl (Error ''No conversation available'')\<rparr>
       \<and> addMessage_legacy role content idNow random tsNow s
           = \<lparr>store_after = s, console = [''No current conversation to add message to''],
              result = Inr ()\<rparr>
       \<and> addMessage_remote role content appended s
           = \<lparr>store_after = s, console = [], result = Inr ()\<rparr>"
  using assms
  by (simp add: addMessage_def addMessage_legacy_def addMessage_remote_def)

theorem addMessage_without_target_witness:
  "currentConversation unseeded = None
   \<and> result (addMessage User ''How do we cut churn?'' None 2000 ''0.5'' 2000 unseeded)
       = Inl (Error ''No conversation available'')
   \<and> store_after (addMessage User ''How do we cut churn?'' None 2000 ''0.5'' 2000 unseeded)
       = unseeded
   \<and> addMessage_legacy User ''How do we cut churn?'' 2000 ''0.5'' 2000 unseeded
       = \<lparr>store_after = unseeded,
          console = [''No current conversation to add message to''], result = Inr ()\<rparr>"
proof -
  have h: "currentConversation unseeded = None"
    by (simp add: unseeded_def)
  from addMessage_without_target
         [OF h, of User "''How do we cut churn?''" 2000 "''0.5''" 2000 "Inr stored"] h
  show ?thesis by simp
qed

text \<open>
  The claim fails in the remote provider: with no current conversation the call returns
  normally and prints nothing, although the append would have succeeded.
\<close>

theorem addMessage_remote_drops_counterexample:
  "currentConversation unseeded = None
   \<and> addMessage_remote User ''How do we cut churn?'' (Inr stored) unseeded
       = \<lparr>store_after = unseeded, console = [], result = Inr ()\<rparr>"
  by (simp add: addMessage_remote_def unseeded_def)

text \<open>
  C8 (as amended). In the in-memory providers \<^verbatim>\<open>createConversation\<close> puts the new empty
  conversation at the front of the collection and makes it current. In the remote
  provider a successful \<^verbatim>\<open>createNewConversation\<close> puts the conversation the service
  returned in front of the whole old collection and makes it current; when the service
  fails, both state cells stay as they were, one line is printed, and the call returns
  normally: the error is caught and does not reach the caller.
\<close>

theorem createConversation_front_and_failure:
  "(\<exists>rest. store_after (createConversation idNow createdNow s)
              = \<lparr>conversations = freshConversation idNow createdNow # rest,
                 currentConversation = Some (freshConversation idNow createdNow)\<rparr>
          \<and> store_after (createConversation_legacy idNow createdNow s)
              = \<lparr>conversations = freshConversation idNow createdNow # rest,
                 currentConversation = Some (freshConversation idNow createdNow)\<rparr>)
   \<and> result (createConversation idNow createdNow s) = Inr (freshConversation idNow createdNow)
   \<and> messages (freshConversation idNow createdNow) = []
   \<and> createNewConversation (Inr n) s
        = \<lparr>store_after = \<lparr>conversations = n # conversations s, currentConversation = Some n\<rparr>,
           console = [], result = Inr ()\<rparr>
   \<and> createNewConversation (Inl e) s
        = \<lparr>store_after = s, console = [''Failed to create conversation:''], result = Inr ()\<rparr>"
  by (simp add: createConversation_def createConversation_legacy_def
        createNewConversation_def Let_def freshConversation_def)

theorem createConversation_front_and_failure_witness:
  "store_after (createConversation 2000 2000 busy)
     = \<lparr>conversations = [freshConversation 2000 2000, churnTalk, pricingTalk],
        currentConversation = Some (freshConversation 2000 2000)\<rparr>
   \<and> store_after (createNewConversation (Inr served) busy)
     = \<lparr>conversations = [served, draft, abandoned, churnTalk, pricingTalk],
        currentConversation = Some served\<rparr>
   \<and> store_after (createNewConversation (Inl (Error ''Network Error'')) busy) = busy"
  using createConversation_front_and_failure
          [of 2000 2000 busy served "Error ''Network Error''"]
  by (simp add: createConversation_def Let_def busy_def draft_def abandoned_def
        churnTalk_def pricingTalk_def)

text \<open>
  The claim fails in the remote provider: when the service fails to create the
  conversation, the call returns normally and the caller is told of no error.
\<close>

theorem createNewConversation_swallows_counterexample:
  "result (createNewConversation (Inl (Error ''Network Error'')) busy) = Inr ()
   \<and> console (createNewConversation (Inl (Error ''Network Error'')) busy)
       = [''Failed to create conversation:'']"
  by (simp add: createNewConversation_def)

subsection \<open>Identifiers in the in-memory provider\<close>

text \<open>
  No operation other than \<^verbatim>\<open>createConversation\<close> can bring a second conversation with
  an identifier already present, and \<^verbatim>\<open>createConversation\<close> cannot either as long as the
  identifier it builds from the clock is not in the collection yet.
\<close>

lemma addMessage_keeps_ids:
  "map conv_id (conversations (store_after
      (addMessage role content targetConversation idNow random tsNow s)))
     = map conv_id (conversations s)"
proof (cases "case targetConversation of Some t \<Rightarrow> Some t | None \<Rightarrow> currentConversation s")
  case None
  then show ?thesis by (simp add: addMessage_def)
next
  case (Some t)
  then have r: "targetConversation = Some t
                  \<or> (targetConversation = None \<and> currentConversation s = Some t)"
    by (simp split: option.splits)
  define u where "u = t\<lparr>messages := messages t @
                    [\<lparr>msg_id = ''msg-'' @ show_nat idNow @ ''-'' @ random,
                      msg_role = role, msg_content = content, msg_timestamp = tsNow\<rparr>],
                title := (if messages t = [] \<and> role = User then titleOf content else title t)\<rparr>"
  have fu: "conv_id u = conv_id t" by (simp add: u_def)
  have "conversations (store_after
          (addMessage role content targetConversation idNow random tsNow s))
          = map (\<lambda>c. if conv_id c = conv_id t then u else c) (conversations s)"
    by (simp add: addMessage_resolved [OF r] Let_def u_def)
  with replace_by_id_frame [OF fu, of "conversations s"] show ?thesis
    by simp
qed

lemma ids_stay_distinct:
  assumes "distinct (map conv_id (conversations s))"
  shows "distinct (map conv_id (conversations (store_after
           (addMessage role content targetConversation idNow random tsNow s))))"
    and "distinct (map conv_id (conversations (store_after
           (switchConversation conversationId s))))"
    and "distinct (map conv_id (conversations (store_after
           (deleteConversation conversationId idNow createdNow s))))"
    and "conv_id (freshConversation idNow createdNow) \<notin> conv_id ` set (conversations s) \<Longrightarrow>
         distinct (map conv_id (conversations (store_after
           (createConversation idNow createdNow s))))"
proof -
  show "distinct (map conv_id (conversations (store_after
           (addMessage role content targetConversation idNow random tsNow s))))"
    using assms by (simp only: addMessage_keeps_ids)
  show "distinct (map conv_id (conversations (store_after
           (switchConversation conversationId s))))"
    using assms by (simp add: switchConversation_def split: option.splits)
  show "distinct (map conv_id (conversations (store_after
           (deleteConversation conversationId idNow createdNow s))))"
    using assms by (simp add: deleteConversation_def Let_def distinct_map_filter)
  show "conv_id (freshConversation idNow createdNow) \<notin> conv_id ` set (conversations s) \<Longrightarrow>
         distinct (map conv_id (conversations (store_after
           (createConversation idNow createdNow s))))"
    using assms by (auto simp add: createConversation_def Let_def distinct_map_filter)
qed

text \<open>
  C9. The in-memory providers name a conversation \<^verbatim>\<open>conv-\<close> followed by the clock reading
  alone. When \<^verbatim>\<open>createConversation\<close> reads the same millisecond as the mount effect did,
  and the mounted conversation has received a message in between, the collection holds
  two conversations with the identifier \<^verbatim>\<open>conv-1000\<close>.
\<close>

theorem same_millisecond_duplicate_ids:
  "map conv_id (conversations (store_after (createConversation 1000 1000
      (store_after (addMessage User ''hi'' None 1000 ''0.5'' 1000 (mount 1000 1000))))))
     = [''conv-1000'', ''conv-1000'']
   \<and> \<not> distinct (map conv_id (conversations (store_after (createConversation 1000 1000
      (store_after (addMessage User ''hi'' None 1000 ''0.5'' 1000 (mount 1000 1000)))))))"
  by (simp add: createConversation_def addMessage_resolved mount_1000 Let_def
        freshConversation_def show_nat_1000)




end
